theory Spec2Isabelle
  imports Complex_Main
begin

section \<open>Quantum Buckshot Roulette: the bullet engine and the game controller\<close>

text \<open>
  A shallow embedding of \<^verbatim>\<open>src/game_logic.py\<close>. Every Python method that mutates
  \<^verbatim>\<open>self\<close> becomes a function from the old state to its return value and the new
  state. The callbacks (\<^verbatim>\<open>on_state_change\<close>, \<^verbatim>\<open>on_shot_result\<close>,
  \<^verbatim>\<open>on_round_end\<close>, \<^verbatim>\<open>on_game_end\<close>) are notifications to the user interface and
  are left out: they are \<^verbatim>\<open>None\<close> until a subscriber registers one, and the controller
  reads nothing back from them.
\<close>

subsection \<open>Gates and players\<close>

datatype GateType = X | Y | Z | H | RX | RY | RZ | CNOT

definition is_two_qubit :: "GateType \<Rightarrow> bool" where
  "is_two_qubit g = (g = CNOT)"

record Gate =
  gate_type :: GateType
  used :: bool

text \<open>
  \<^verbatim>\<open>Player\<close> is a dataclass; \<^verbatim>\<open>lives\<close> is a Python int, and a history entry is the
  tuple \<^verbatim>\<open>(gate_type, target1, target2)\<close> with the targets as the caller passed them.
\<close>

record Player =
  name :: string
  player_id :: int
  lives :: int
  gates :: "Gate list"
  peek_available :: bool
  applied_gates_history :: "(GateType \<times> int \<times> int) list"

definition is_alive :: "Player \<Rightarrow> bool" where
  "is_alive p = (lives p > 0)"

definition take_damage :: "Player \<Rightarrow> bool \<times> Player" where
  "take_damage p =
     (let p' = p\<lparr>lives := max 0 (lives p - 1)\<rparr> in (is_alive p', p'))"

definition get_available_gates :: "Player \<Rightarrow> Gate list" where
  "get_available_gates p = filter (\<lambda>g. \<not> used g) (gates p)"

definition has_gate :: "Player \<Rightarrow> GateType \<Rightarrow> bool" where
  "has_gate p gt = list_ex (\<lambda>g. gate_type g = gt \<and> \<not> used g) (gates p)"

text \<open>The loop of \<^verbatim>\<open>use_gate\<close>: the first unused gate of the kind is marked used.\<close>

fun use_first :: "GateType \<Rightarrow> Gate list \<Rightarrow> bool \<times> Gate list" where
  "use_first gt [] = (False, [])"
| "use_first gt (g # gs) =
     (if gate_type g = gt \<and> \<not> used g then (True, g\<lparr>used := True\<rparr> # gs)
      else (let (b, gs') = use_first gt gs in (b, g # gs')))"

definition use_gate :: "Player \<Rightarrow> GateType \<Rightarrow> bool \<times> Player" where
  "use_gate p gt = (let (b, gs) = use_first gt (gates p) in (b, p\<lparr>gates := gs\<rparr>))"

definition reset_for_new_round :: "Player \<Rightarrow> Player" where
  "reset_for_new_round p =
     p\<lparr>gates := [], peek_available := True, applied_gates_history := []\<rparr>"

definition set_gates :: "Player \<Rightarrow> GateType list \<Rightarrow> Player" where
  "set_gates p gts = p\<lparr>gates := map (\<lambda>gt. \<lparr>gate_type = gt, used = False\<rparr>) gts\<rparr>"

definition record_gate_application :: "Player \<Rightarrow> GateType \<Rightarrow> int \<Rightarrow> int \<Rightarrow> Player" where
  "record_gate_application p gt target1 target2 =
     p\<lparr>applied_gates_history := applied_gates_history p @ [(gt, target1, target2)]\<rparr>"

subsection \<open>The bullet system\<close>

text \<open>
  The Qiskit circuit is the list of the instructions appended to it. The method
  \<^verbatim>\<open>_break_entanglement\<close> and the attribute \<^verbatim>\<open>_collapsed_states\<close> lose their leading
  underscore. A position that
  has passed the range checks of the code is a natural number. The dictionaries
  \<^verbatim>\<open>entanglements\<close> and \<^verbatim>\<open>_collapsed_states\<close> are maps; \<^verbatim>\<open>_collapsed_states\<close> is
  created by \<^verbatim>\<open>initialize_bullets\<close> and every read of it is guarded by \<^verbatim>\<open>hasattr\<close>, so
  the absent attribute and the empty dictionary behave alike and both are the empty map.
\<close>

datatype instr = Gate1 GateType nat | CX nat nat | Measure nat

datatype py_error = IndexError | AttributeError | ValueError

record QuantumBulletSystem =
  num_bullets :: nat
  circuit :: "instr list"
  entanglements :: "nat \<rightharpoonup> nat"
  measured :: "bool list"
  measurement_results :: "int option list"
  initial_live_positions :: "int list"
  current_bullet_index :: nat
  collapsed_states :: "nat \<rightharpoonup> int"

definition new_system :: "nat \<Rightarrow> QuantumBulletSystem" where
  "new_system n =
     \<lparr>num_bullets = n, circuit = [], entanglements = Map.empty,
      measured = replicate n False, measurement_results = replicate n None,
      initial_live_positions = [], current_bullet_index = 0,
      collapsed_states = Map.empty\<rparr>"

definition initialize_bullets :: "QuantumBulletSystem \<Rightarrow> int list \<Rightarrow> QuantumBulletSystem" where
  "initialize_bullets s live_positions =
     s\<lparr>circuit := map (\<lambda>pos. Gate1 X (nat pos))
                    (filter (\<lambda>pos. 0 \<le> pos \<and> pos < int (num_bullets s)) live_positions),
       entanglements := Map.empty,
       measured := replicate (num_bullets s) False,
       measurement_results := replicate (num_bullets s) None,
       initial_live_positions := sort live_positions,
       current_bullet_index := 0,
       collapsed_states := Map.empty\<rparr>"

definition break_entanglement :: "QuantumBulletSystem \<Rightarrow> nat \<Rightarrow> QuantumBulletSystem" where
  "break_entanglement s qubit =
     (case entanglements s qubit of
        None \<Rightarrow> s
      | Some partner \<Rightarrow>
          s\<lparr>entanglements := ((entanglements s)(qubit := None))(partner := None)\<rparr>)"

text \<open>
  \<^verbatim>\<open>QuantumBulletSystem.apply_gate\<close>. The lists \<^verbatim>\<open>measured\<close> and
  \<^verbatim>\<open>measurement_results\<close> have \<^verbatim>\<open>num_bullets\<close> entries from the constructor on, so a
  read below the range check is in range.
\<close>

definition apply_gate ::
  "QuantumBulletSystem \<Rightarrow> GateType \<Rightarrow> int \<Rightarrow> int \<Rightarrow> bool \<times> QuantumBulletSystem" where
  "apply_gate s g target1 target2 =
     (if target1 < 0 \<or> target1 \<ge> int (num_bullets s) then (False, s)
      else if measured s ! nat target1 then (False, s)
      else if is_two_qubit g \<and> (target2 < 0 \<or> target2 \<ge> int (num_bullets s)) then (False, s)
      else if is_two_qubit g \<and> measured s ! nat target2 then (False, s)
      else if is_two_qubit g \<and> target1 = target2 then (False, s)
      else if g = CNOT then
        (let s1 = break_entanglement s (nat target2) in
         (True, s1\<lparr>circuit := circuit s1 @ [CX (nat target1) (nat target2)],
                   entanglements := (entanglements s1)(nat target1 \<mapsto> nat target2,
                                                       nat target2 \<mapsto> nat target1)\<rparr>))
      else (True, s\<lparr>circuit := circuit s @ [Gate1 g (nat target1)]\<rparr>))"

text \<open>The \<^verbatim>\<open>while\<close> loop that moves the queue pointer past measured positions.\<close>

function skip_measured :: "bool list \<Rightarrow> nat \<Rightarrow> nat \<Rightarrow> nat" where
  "skip_measured ms n i = (if i < n \<and> ms ! i then skip_measured ms n (Suc i) else i)"
  by pat_completeness auto
termination
  by (relation "measure (\<lambda>(ms, n, i). n - i)") auto

declare skip_measured.simps [simp del]

definition advance :: "QuantumBulletSystem \<Rightarrow> QuantumBulletSystem" where
  "advance s =
     s\<lparr>current_bullet_index :=
         skip_measured (measured s) (num_bullets s) (current_bullet_index s + 1)\<rparr>"

text \<open>
  \<^verbatim>\<open>measure_bullet\<close>. The one-shot run of the simulator is random: its outcome is
  the parameter \<open>sample\<close> (\<open>True\<close> for the bit 1). An index past the lists raises
  \<^verbatim>\<open>IndexError\<close>.
\<close>

definition measure_bullet ::
  "QuantumBulletSystem \<Rightarrow> nat \<Rightarrow> bool \<Rightarrow> py_error + (int option \<times> QuantumBulletSystem)" where
  "measure_bullet s qubit sample =
     (if qubit \<ge> length (measured s) \<or> qubit \<ge> length (measurement_results s)
      then Inl IndexError
      else if measured s ! qubit then Inr (measurement_results s ! qubit, s)
      else case collapsed_states s qubit of
        Some result_value \<Rightarrow>
          Inr (Some result_value,
               advance (s\<lparr>measured := (measured s)[qubit := True],
                          measurement_results :=
                            (measurement_results s)[qubit := Some result_value],
                          collapsed_states := (collapsed_states s)(qubit := None)\<rparr>))
      | None \<Rightarrow>
          (let partner = entanglements s qubit;
               result_value = (if sample then 1 else 0);
               s1 = s\<lparr>measured := (measured s)[qubit := True],
                      measurement_results :=
                        (measurement_results s)[qubit := Some result_value],
                      circuit := circuit s @ [Measure qubit]\<rparr>;
               s2 = (case partner of
                       Some p \<Rightarrow>
                         if \<not> measured s1 ! p
                         then break_entanglement
                                (s1\<lparr>collapsed_states := (collapsed_states s1)(p \<mapsto> result_value)\<rparr>)
                                qubit
                         else s1
                     | None \<Rightarrow> s1)
           in Inr (Some result_value, advance s2)))"

definition fire_next_bullet ::
  "QuantumBulletSystem \<Rightarrow> bool \<Rightarrow> py_error + ((int \<times> int option) \<times> QuantumBulletSystem)" where
  "fire_next_bullet s sample =
     (let bullet_idx = current_bullet_index s in
      if bullet_idx \<ge> num_bullets s then Inr ((-1, Some (-1)), s)
      else case measure_bullet s bullet_idx sample of
             Inl e \<Rightarrow> Inl e
           | Inr (result, s') \<Rightarrow> Inr ((int bullet_idx, result), s'))"

definition get_unmeasured_bullets :: "QuantumBulletSystem \<Rightarrow> nat list" where
  "get_unmeasured_bullets s = filter (\<lambda>i. \<not> measured s ! i) [0..<num_bullets s]"

definition all_measured :: "QuantumBulletSystem \<Rightarrow> bool" where
  "all_measured s = list_all (\<lambda>b. b) (measured s)"

subsection \<open>The simulator\<close>

text \<open>
  Modelled from the spec: the statevector simulator is the external Qiskit Aer library
  and is not part of the sources. Following section 4.1 of the specification
  (\<open>apply_gate\<close> applies the unitary matrix of the kind at the target positions of the
  joint vector; Pauli-X is the bit flip), a run is exact linear algebra over the complex
  numbers on the \<open>2 ^ N\<close> amplitudes, starting from the basis state with every
  position blank. Position \<open>q\<close> is bit \<open>q\<close> of the index of an amplitude, as in the
  expression \<^verbatim>\<open>(i >> qubit) & 1\<close> of \<^verbatim>\<open>get_probabilities\<close>. No gate follows a
  measurement on its position (a measured target is refused), so
  \<^verbatim>\<open>remove_final_measurements\<close> removes every measurement. The circuit holds a
  Controlled-X as the instruction \<open>CX\<close>, never as a single-position gate; its row of
  \<open>gate_matrix\<close> is the identity.
\<close>

definition bit_value :: "nat \<Rightarrow> nat \<Rightarrow> nat" where
  "bit_value i qubit = (i div 2 ^ qubit) mod 2"

text \<open>
  Modelled from the spec: the unitary matrix of each single-position kind, by rows, with
  the rotation angle \<open>\<pi>/2\<close> of the source.
\<close>

definition gate_matrix :: "GateType \<Rightarrow> complex \<times> complex \<times> complex \<times> complex" where
  "gate_matrix g =
     (case g of
        X \<Rightarrow> (0, 1, 1, 0)
      | Y \<Rightarrow> (0, - \<i>, \<i>, 0)
      | Z \<Rightarrow> (1, 0, 0, - 1)
      | H \<Rightarrow> (1 / sqrt 2, 1 / sqrt 2, 1 / sqrt 2, - (1 / sqrt 2))
      | RX \<Rightarrow> (cos (pi / 4), - \<i> * sin (pi / 4), - \<i> * sin (pi / 4), cos (pi / 4))
      | RY \<Rightarrow> (cos (pi / 4), - sin (pi / 4), sin (pi / 4), cos (pi / 4))
      | RZ \<Rightarrow> (cis (- (pi / 4)), 0, 0, cis (pi / 4))
      | CNOT \<Rightarrow> (1, 0, 0, 1))"

text \<open>
  Modelled from the spec: the matrix applied at position \<open>q\<close> of the joint vector.
\<close>

definition apply_matrix ::
  "complex \<times> complex \<times> complex \<times> complex \<Rightarrow> nat \<Rightarrow> complex list \<Rightarrow> complex list" where
  "apply_matrix m q v =
     (case m of (a, b, c, d) \<Rightarrow>
        map (\<lambda>i. if bit_value i q = 0 then a * v ! i + b * v ! (i + 2 ^ q)
                  else c * v ! (i - 2 ^ q) + d * v ! i)
            [0..<length v])"

text \<open>
  Modelled from the spec: Controlled-X flips the target bit of the indices whose control
  bit is set.
\<close>

definition apply_cx :: "nat \<Rightarrow> nat \<Rightarrow> complex list \<Rightarrow> complex list" where
  "apply_cx ctrl tgt v =
     map (\<lambda>i. if bit_value i ctrl = 0 then v ! i
               else if bit_value i tgt = 0 then v ! (i + 2 ^ tgt) else v ! (i - 2 ^ tgt))
         [0..<length v]"

text \<open>
  Modelled from the spec: one instruction of the circuit, and the run of a circuit from
  the all-blank basis state. The run always returns a vector.
\<close>

fun run_instr :: "complex list \<Rightarrow> instr \<Rightarrow> complex list" where
  "run_instr v (Gate1 g q) = apply_matrix (gate_matrix g) q v"
| "run_instr v (CX ctrl tgt) = apply_cx ctrl tgt v"
| "run_instr v (Measure q) = v"

definition simulator_run :: "nat \<Rightarrow> instr list \<Rightarrow> complex list option" where
  "simulator_run n circ = Some (foldl run_instr (1 # replicate (2 ^ n - 1) 0) circ)"

text \<open>
  \<^verbatim>\<open>get_probabilities\<close>: the answer for a measured or collapsed position is fixed; for
  any other position the squared magnitudes are summed by the value of its bit. The
  \<^verbatim>\<open>except\<close> branch answers \<open>(0.5, 0.5)\<close> for such a position when the simulator
  fails.
\<close>

definition fixed_probability :: "QuantumBulletSystem \<Rightarrow> nat \<Rightarrow> (real \<times> real) option" where
  "fixed_probability s qubit =
     (if measured s ! qubit then
        (if measurement_results s ! qubit = Some 0 then Some (1, 0) else Some (0, 1))
      else case collapsed_states s qubit of
        Some r \<Rightarrow> (if r = 0 then Some (1, 0) else Some (0, 1))
      | None \<Rightarrow> None)"

definition marginal :: "complex list \<Rightarrow> nat \<Rightarrow> real \<times> real" where
  "marginal statevector qubit =
     (sum_list (map (\<lambda>i. (cmod (statevector ! i))\<^sup>2)
                 (filter (\<lambda>i. bit_value i qubit = 0) [0..<length statevector])),
      sum_list (map (\<lambda>i. (cmod (statevector ! i))\<^sup>2)
                 (filter (\<lambda>i. bit_value i qubit \<noteq> 0) [0..<length statevector])))"

definition get_probabilities :: "QuantumBulletSystem \<Rightarrow> (real \<times> real) list" where
  "get_probabilities s =
     (case simulator_run (num_bullets s) (circuit s) of
        Some statevector \<Rightarrow>
          map (\<lambda>qubit. case fixed_probability s qubit of
                          Some pr \<Rightarrow> pr
                        | None \<Rightarrow> marginal statevector qubit)
              [0..<num_bullets s]
      | None \<Rightarrow>
          map (\<lambda>qubit. case fixed_probability s qubit of
                          Some pr \<Rightarrow> pr
                        | None \<Rightarrow> (1 / 2, 1 / 2))
              [0..<num_bullets s])"


text \<open>
  Modelled from the spec: the Born rule for the one-shot run of \<^verbatim>\<open>measure_bullet\<close>. The
  run repeats the circuit, earlier measurements included; a measured position takes no
  gate afterwards, so the outcome for the position measured now is distributed as its
  marginal in the amplitude vector of the gates.
\<close>

definition sample_probability :: "QuantumBulletSystem \<Rightarrow> nat \<Rightarrow> bool \<Rightarrow> real" where
  "sample_probability s qubit sample =
     (case simulator_run (num_bullets s) (circuit s) of
        Some statevector \<Rightarrow>
          (if sample then snd (marginal statevector qubit)
           else fst (marginal statevector qubit))
      | None \<Rightarrow> 0)"

subsection \<open>The game controller\<close>

text \<open>
  \<^verbatim>\<open>current_player\<close> and \<^verbatim>\<open>winner\<close> are references to one of the two player
  objects of the game: a reference is \<open>P1\<close> or \<open>P2\<close>. \<^verbatim>\<open>Player\<close> is a dataclass, so
  the test \<^verbatim>\<open>player == self.player1\<close> of \<^verbatim>\<open>get_opponent\<close> compares the fields.
  The phase is the string of the source. The field \<^verbatim>\<open>num_bullets\<close> and the method
  \<^verbatim>\<open>apply_gate\<close> of the controller are \<open>game_num_bullets\<close> and \<open>game_apply_gate\<close>,
  next to those of the bullet system. The messages of the source are listed by kind:
  \<open>GameIsOver\<close> is \<^verbatim>\<open>"Game is over"\<close>, \<open>NotPlayingPhase\<close> is
  \<^verbatim>\<open>"Cannot apply gates outside playing phase"\<close> or
  \<^verbatim>\<open>"Cannot shoot outside playing phase"\<close>, and so on.
\<close>

datatype player_ref = P1 | P2

datatype message =
    NotPlayingPhase
  | GameIsOver
  | OneGatePerTurn
  | GateNotAvailable GateType
  | AppliedOne GateType int
  | AppliedTwo GateType int int
  | FailedToApply
  | NoMoreBullets

record QuantumBuckshotGame =
  game_num_bullets :: nat
  num_gates :: int
  initial_lives :: int
  player1 :: Player
  player2 :: Player
  current_player :: player_ref
  bullet_system :: "QuantumBulletSystem option"
  round_number :: int
  game_over :: bool
  winner :: "player_ref option"
  phase :: string
  gate_selection_player :: int
  gate_applied_this_turn :: bool

definition new_game :: "nat \<Rightarrow> int \<Rightarrow> int \<Rightarrow> QuantumBuckshotGame" where
  "new_game n_bullets n_gates n_lives =
     \<lparr>game_num_bullets = n_bullets, num_gates = n_gates, initial_lives = n_lives,
      player1 = \<lparr>name = ''Player 1'', player_id = 1, lives = n_lives, gates = [],
                 peek_available = True, applied_gates_history = []\<rparr>,
      player2 = \<lparr>name = ''Player 2'', player_id = 2, lives = n_lives, gates = [],
                 peek_available = True, applied_gates_history = []\<rparr>,
      current_player = P1, bullet_system = None, round_number = 0, game_over = False,
      winner = None, phase = ''gate_selection'', gate_selection_player = 1,
      gate_applied_this_turn = False\<rparr>"

fun the_player :: "QuantumBuckshotGame \<Rightarrow> player_ref \<Rightarrow> Player" where
  "the_player g P1 = player1 g"
| "the_player g P2 = player2 g"

fun set_player :: "QuantumBuckshotGame \<Rightarrow> player_ref \<Rightarrow> Player \<Rightarrow> QuantumBuckshotGame" where
  "set_player g P1 p = g\<lparr>player1 := p\<rparr>"
| "set_player g P2 p = g\<lparr>player2 := p\<rparr>"

definition get_opponent :: "QuantumBuckshotGame \<Rightarrow> player_ref \<Rightarrow> player_ref" where
  "get_opponent g r = (if the_player g r = player1 g then P2 else P1)"




definition begin_round :: "QuantumBuckshotGame \<Rightarrow> QuantumBuckshotGame" where
  "begin_round g =
     g\<lparr>round_number := round_number g + 1,
       phase := ''gate_selection'',
       gate_selection_player := 1,
       gate_applied_this_turn := False,
       player1 := reset_for_new_round (player1 g),
       player2 := reset_for_new_round (player2 g)\<rparr>"

definition load_chamber :: "QuantumBuckshotGame \<Rightarrow> int list \<Rightarrow> QuantumBuckshotGame" where
  "load_chamber g live_positions =
     g\<lparr>bullet_system :=
         Some (initialize_bullets (new_system (game_num_bullets g)) live_positions)\<rparr>"


definition submit_gate_selection ::
  "QuantumBuckshotGame \<Rightarrow> int \<Rightarrow> GateType list \<Rightarrow> bool \<times> QuantumBuckshotGame" where
  "submit_gate_selection g pid selected_gates =
     (if int (length selected_gates) \<noteq> num_gates g then (False, g)
      else
        (let g1 = (if pid = 1 then g\<lparr>player1 := set_gates (player1 g) selected_gates\<rparr>
                   else g\<lparr>player2 := set_gates (player2 g) selected_gates\<rparr>)
         in (True, if pid = 1 then g1\<lparr>gate_selection_player := 2\<rparr>
                   else g1\<lparr>phase := ''show_bullets''\<rparr>)))"

definition start_playing_phase :: "QuantumBuckshotGame \<Rightarrow> QuantumBuckshotGame" where
  "start_playing_phase g =
     g\<lparr>phase := ''playing'', gate_applied_this_turn := False, current_player := P1\<rparr>"

text \<open>
  \<^verbatim>\<open>QuantumBuckshotGame.apply_gate\<close>. Before the first round \<^verbatim>\<open>bullet_system\<close> is
  \<^verbatim>\<open>None\<close> and the call on it raises \<^verbatim>\<open>AttributeError\<close>.
\<close>

definition game_apply_gate ::
  "QuantumBuckshotGame \<Rightarrow> GateType \<Rightarrow> int \<Rightarrow> int \<Rightarrow>
     py_error + ((bool \<times> message) \<times> QuantumBuckshotGame)" where
  "game_apply_gate g gt target1 target2 =
     (if phase g \<noteq> ''playing'' then Inr ((False, NotPlayingPhase), g)
      else if game_over g then Inr ((False, GameIsOver), g)
      else if gate_applied_this_turn g then Inr ((False, OneGatePerTurn), g)
      else if \<not> has_gate (the_player g (current_player g)) gt
        then Inr ((False, GateNotAvailable gt), g)
      else case bullet_system g of
        None \<Rightarrow> Inl AttributeError
      | Some bs \<Rightarrow>
          (case apply_gate bs gt target1 target2 of
             (True, bs') \<Rightarrow>
               (let r = current_player g;
                    p1 = snd (use_gate (the_player g r) gt);
                    p2 = record_gate_application p1 gt target1 target2;
                    g' = (set_player g r p2)\<lparr>bullet_system := Some bs',
                                              gate_applied_this_turn := True\<rparr>
                in Inr ((True, if is_two_qubit gt then AppliedTwo gt target1 target2
                               else AppliedOne gt target1), g'))
           | (False, bs') \<Rightarrow>
               Inr ((False, FailedToApply), g\<lparr>bullet_system := Some bs'\<rparr>)))"

text \<open>The dictionary that a successful \<^verbatim>\<open>shoot\<close> returns.\<close>

record shot_info =
  info_shooter :: string
  info_shooter_id :: int
  info_target :: string
  info_target_id :: int
  info_bullet_index :: int
  info_is_live :: bool
  info_shot_self :: bool
  info_extra_turn :: bool
  info_damage_dealt :: bool
  info_target_lives_remaining :: int
  info_round_over :: bool
  info_game_over :: bool
  info_winner :: "string option"

datatype shot_result = ShotFailed message | ShotDone shot_info

definition shoot ::
  "QuantumBuckshotGame \<Rightarrow> bool \<Rightarrow> bool \<Rightarrow> py_error + (shot_result \<times> QuantumBuckshotGame)" where
  "shoot g shoot_self sample =
     (if phase g \<noteq> ''playing'' then Inr (ShotFailed NotPlayingPhase, g)
      else if game_over g then Inr (ShotFailed GameIsOver, g)
      else
        (let shooter = current_player g;
             target = (if shoot_self then shooter else get_opponent g shooter)
         in case bullet_system g of
              None \<Rightarrow> Inl AttributeError
            | Some bs \<Rightarrow>
               (case fire_next_bullet bs sample of
                  Inl e \<Rightarrow> Inl e
                | Inr ((bullet_idx, result), bs') \<Rightarrow>
                    if bullet_idx < 0
                    then Inr (ShotFailed NoMoreBullets, g\<lparr>bullet_system := Some bs'\<rparr>)
                    else
                     (let is_live = (result = Some 1);
                          g0 = g\<lparr>bullet_system := Some bs'\<rparr>;
                          info0 = \<lparr>info_shooter = name (the_player g0 shooter),
                                   info_shooter_id = player_id (the_player g0 shooter),
                                   info_target = name (the_player g0 target),
                                   info_target_id = player_id (the_player g0 target),
                                   info_bullet_index = bullet_idx,
                                   info_is_live = is_live,
                                   info_shot_self = shoot_self,
                                   info_extra_turn = False,
                                   info_damage_dealt = False,
                                   info_target_lives_remaining = lives (the_player g0 target),
                                   info_round_over = False,
                                   info_game_over = False,
                                   info_winner = None\<rparr>;
                          (info1, g1) =
                            (if is_live then
                               (let (still_alive, tp) = take_damage (the_player g0 target);
                                    gd = set_player g0 target tp;
                                    infod = info0\<lparr>info_damage_dealt := True,
                                                  info_target_lives_remaining := lives tp\<rparr>
                                in if \<not> still_alive then
                                     (let w = get_opponent gd target in
                                      (infod\<lparr>info_game_over := True,
                                             info_winner := Some (name (the_player gd w))\<rparr>,
                                       gd\<lparr>game_over := True, winner := Some w\<rparr>))
                                   else
                                     (infod,
                                      gd\<lparr>current_player := get_opponent gd shooter,
                                         gate_applied_this_turn := False\<rparr>))
                             else if shoot_self then
                               (info0\<lparr>info_extra_turn := True\<rparr>,
                                g0\<lparr>gate_applied_this_turn := False\<rparr>)
                             else
                               (info0,
                                g0\<lparr>current_player := get_opponent g0 shooter,
                                   gate_applied_this_turn := False\<rparr>));
                          info2 = (if all_measured bs' \<and> \<not> game_over g1
                                   then info1\<lparr>info_round_over := True\<rparr> else info1)
                      in Inr (ShotDone info2, g1)))))"

definition use_peek :: "QuantumBuckshotGame \<Rightarrow> (bool \<times> Gate list) \<times> QuantumBuckshotGame" where
  "use_peek g =
     (if phase g \<noteq> ''playing'' then ((False, []), g)
      else
        (let r = current_player g;
             opponent = get_opponent g r
         in if \<not> peek_available (the_player g r) then ((False, []), g)
            else
              (let g' = set_player g r ((the_player g r)\<lparr>peek_available := False\<rparr>)
               in ((True, get_available_gates (the_player g' opponent)), g'))))"


definition get_initial_bullet_config :: "QuantumBuckshotGame \<Rightarrow> nat \<times> int list" where
  "get_initial_bullet_config g =
     (case bullet_system g of
        Some bs \<Rightarrow> (game_num_bullets g, initial_live_positions bs)
      | None \<Rightarrow> (game_num_bullets g, []))"

subsection \<open>Invariants, runs and concrete states\<close>

text \<open>
  The constructor and \<^verbatim>\<open>initialize_bullets\<close> build both lists with \<^verbatim>\<open>num_bullets\<close>
  entries, and no method changes their length.
\<close>

definition wf_system :: "QuantumBulletSystem \<Rightarrow> bool" where
  "wf_system s =
     (length (measured s) = num_bullets s \<and> length (measurement_results s) = num_bullets s)"

text \<open>
  The queue pointer is past the chamber or at an unmeasured position. This holds after
  \<^verbatim>\<open>initialize_bullets\<close> and every method keeps it.
\<close>

definition queue_ok :: "QuantumBulletSystem \<Rightarrow> bool" where
  "queue_ok s =
     (wf_system s \<and>
      (current_bullet_index s < num_bullets s \<longrightarrow> \<not> measured s ! current_bullet_index s))"

text \<open>A sequence of calls of \<^verbatim>\<open>fire_next_bullet\<close>, one per sample, with the results in order.\<close>

fun fire_seq ::
  "QuantumBulletSystem \<Rightarrow> bool list \<Rightarrow>
     py_error + ((int \<times> int option) list \<times> QuantumBulletSystem)" where
  "fire_seq s [] = Inr ([], s)"
| "fire_seq s (b # bs) =
     (case fire_next_bullet s b of
        Inl e \<Rightarrow> Inl e
      | Inr (r, s') \<Rightarrow>
          (case fire_seq s' bs of
             Inl e \<Rightarrow> Inl e
           | Inr (rs, s'') \<Rightarrow> Inr (r # rs, s'')))"








text \<open>The other one of the two player objects.\<close>

fun other_player :: "player_ref \<Rightarrow> player_ref" where
  "other_player P1 = P2"
| "other_player P2 = P1"



text \<open>
  The positions a gate acts on: \<^verbatim>\<open>QuantumBulletSystem.apply_gate\<close> reads \<open>target2\<close> for
  the two-position gate only. \<open>instr_qubits\<close> are the positions of an instruction of the
  circuit.
\<close>

definition acts_on :: "GateType \<Rightarrow> int \<Rightarrow> int \<Rightarrow> nat \<Rightarrow> bool" where
  "acts_on gt target1 target2 p =
     (target1 = int p \<or> (is_two_qubit gt \<and> target2 = int p))"

fun instr_qubits :: "instr \<Rightarrow> nat set" where
  "instr_qubits (Gate1 g q) = {q}"
| "instr_qubits (CX ctrl tgt) = {ctrl, tgt}"
| "instr_qubits (Measure q) = {q}"

text \<open>A chamber of three positions after \<^verbatim>\<open>apply_gate(CNOT, 0, 1)\<close>.\<close>

definition stale_start :: QuantumBulletSystem where
  "stale_start = snd (apply_gate (initialize_bullets (new_system 3) [1]) CNOT 0 1)"

text \<open>
  A match with two positions, one gate and one life each, position 0 live, after both
  selections and the start of the playing phase; the same match after player 1 has
  shot player 2 with the live position 0; and after player 1 has instead applied the X
  gate to position 1. \<open>duel_blank\<close> is the match with position 1 live in place of
  position 0.
\<close>

definition duel_round :: QuantumBuckshotGame where
  "duel_round = load_chamber (begin_round (new_game 2 1 1)) [0]"

definition duel :: QuantumBuckshotGame where
  "duel = start_playing_phase
            (snd (submit_gate_selection (snd (submit_gate_selection duel_round 1 [X])) 2 [H]))"

definition duel_over :: QuantumBuckshotGame where
  "duel_over = (case shoot duel False True of Inr (r, g) \<Rightarrow> g | Inl e \<Rightarrow> duel)"


definition duel_blank :: QuantumBuckshotGame where
  "duel_blank =
     start_playing_phase
       (snd (submit_gate_selection
               (snd (submit_gate_selection
                       (load_chamber (begin_round (new_game 2 1 1)) [1]) 1 [X]))
               2 [H]))"




text \<open>
  A chamber of four positions, position 1 live, after \<^verbatim>\<open>measure_bullet(2)\<close> with the
  outcome 0: the pointer is at position 1 and position 2 is measured ahead of it.
\<close>

definition skip_start :: QuantumBulletSystem where
  "skip_start =
     (case measure_bullet (initialize_bullets (new_system 4) [1]) 2 False of
        Inr (r, s) \<Rightarrow> s
      | Inl e \<Rightarrow> new_system 4)"




text \<open>
  The scenario of the specification on three positions, position 0 live: a fresh
  chamber, the same after \<^verbatim>\<open>apply_gate(CNOT, 0, 2)\<close>, and after \<^verbatim>\<open>measure_bullet(0)\<close>
  with the outcome 1. Two continuations: the X gate on position 1 and its measurement
  with the outcome 1; or \<^verbatim>\<open>apply_gate(CNOT, 1, 2)\<close> and the measurement of position 1
  with the outcome 0.
\<close>

definition pair_start :: QuantumBulletSystem where
  "pair_start = initialize_bullets (new_system 3) [0]"





section \<open>Properties\<close>

lemmas sys_defs = apply_gate_def initialize_bullets_def new_system_def is_two_qubit_def
  break_entanglement_def

lemmas game_defs = start_playing_phase_def submit_gate_selection_def
  begin_round_def load_chamber_def new_game_def reset_for_new_round_def set_gates_def shoot_def
  fire_next_bullet_def measure_bullet_def advance_def get_opponent_def take_damage_def
  is_alive_def all_measured_def use_peek_def get_available_gates_def

text \<open>Fields that the helpers of the engine leave alone.\<close>

lemma break_entanglement_fields [simp]:
  "measured (break_entanglement s q) = measured s"
  "measurement_results (break_entanglement s q) = measurement_results s"
  "num_bullets (break_entanglement s q) = num_bullets s"
  "current_bullet_index (break_entanglement s q) = current_bullet_index s"
  "initial_live_positions (break_entanglement s q) = initial_live_positions s"
  "collapsed_states (break_entanglement s q) = collapsed_states s"
  "circuit (break_entanglement s q) = circuit s"
  by (simp_all add: break_entanglement_def split: option.splits)

lemma advance_fields [simp]:
  "measured (advance s) = measured s"
  "measurement_results (advance s) = measurement_results s"
  "num_bullets (advance s) = num_bullets s"
  "collapsed_states (advance s) = collapsed_states s"
  "entanglements (advance s) = entanglements s"
  "initial_live_positions (advance s) = initial_live_positions s"
  "circuit (advance s) = circuit s"
  by (simp_all add: advance_def)

text \<open>The concrete matches, evaluated.\<close>

lemma duel_eq:
  "duel =
     \<lparr>game_num_bullets = 2, num_gates = 1, initial_lives = 1,
      player1 = \<lparr>name = ''Player 1'', player_id = 1, lives = 1,
                 gates = [\<lparr>gate_type = X, used = False\<rparr>],
                 peek_available = True, applied_gates_history = []\<rparr>,
      player2 = \<lparr>name = ''Player 2'', player_id = 2, lives = 1,
                 gates = [\<lparr>gate_type = H, used = False\<rparr>],
                 peek_available = True, applied_gates_history = []\<rparr>,
      current_player = P1,
      bullet_system = Some
        \<lparr>num_bullets = 2, circuit = [Gate1 X 0], entanglements = Map.empty,
         measured = [False, False], measurement_results = [None, None],
         initial_live_positions = [0], current_bullet_index = 0,
         collapsed_states = Map.empty\<rparr>,
      round_number = 1, game_over = False, winner = None, phase = ''playing'',
      gate_selection_player = 2, gate_applied_this_turn = False\<rparr>"
  by (simp add: duel_def duel_round_def game_defs sys_defs Let_def numeral_2_eq_2)

lemma duel_over_eq:
  "duel_over =
     \<lparr>game_num_bullets = 2, num_gates = 1, initial_lives = 1,
      player1 = \<lparr>name = ''Player 1'', player_id = 1, lives = 1,
                 gates = [\<lparr>gate_type = X, used = False\<rparr>],
                 peek_available = True, applied_gates_history = []\<rparr>,
      player2 = \<lparr>name = ''Player 2'', player_id = 2, lives = 0,
                 gates = [\<lparr>gate_type = H, used = False\<rparr>],
                 peek_available = True, applied_gates_history = []\<rparr>,
      current_player = P1,
      bullet_system = Some
        \<lparr>num_bullets = 2, circuit = [Gate1 X 0, Measure 0], entanglements = Map.empty,
         measured = [True, False], measurement_results = [Some 1, None],
         initial_live_positions = [0], current_bullet_index = 1,
         collapsed_states = Map.empty\<rparr>,
      round_number = 1, game_over = True, winner = Some P1, phase = ''playing'',
      gate_selection_player = 2, gate_applied_this_turn = False\<rparr>"
  by (simp add: duel_over_def duel_eq game_defs Let_def skip_measured.simps)

subsection \<open>The entanglement ledger\<close>

text \<open>
  What \<^verbatim>\<open>apply_gate\<close> does with a Controlled-X: the entry of \<open>target2\<close> and its mirror
  at the old partner of \<open>target2\<close> are removed, then the pair is recorded. The entry of
  \<open>target1\<close> is overwritten, and the mirror at the old partner of \<open>target1\<close> is not
  touched.
\<close>

lemma apply_gate_CNOT_ledger:
  assumes "apply_gate s CNOT a b = (True, s')"
  shows "entanglements s' (nat a) = Some (nat b)"
    and "entanglements s' (nat b) = Some (nat a)"
    and "entanglements s (nat b) = Some q \<Longrightarrow> q \<noteq> nat a \<Longrightarrow> q \<noteq> nat b \<Longrightarrow>
         entanglements s' q = None"
    and "k \<noteq> nat a \<Longrightarrow> k \<noteq> nat b \<Longrightarrow> entanglements s (nat b) \<noteq> Some k \<Longrightarrow>
         entanglements s' k = entanglements s k"
  using assms
  by (auto simp: apply_gate_def break_entanglement_def Let_def is_two_qubit_def
      split: if_splits option.splits)

text \<open>
  C1. The claim: after a successful Controlled-X on A and B no third position still names
  A or B as its partner. On three positions, \<^verbatim>\<open>apply_gate(CNOT, 0, 1)\<close> and then
  \<^verbatim>\<open>apply_gate(CNOT, 0, 2)\<close> both succeed, positions 0 and 2 are recorded as partners,
  and position 1 still names position 0: only \<^verbatim>\<open>_break_entanglement(target2)\<close> is
  called, the old entry of \<open>target1\<close> keeps its mirror.
\<close>

theorem CNOT_keeps_stale_partner_of_target1:
  "fst (apply_gate stale_start CNOT 0 2) \<and>
   entanglements (snd (apply_gate stale_start CNOT 0 2)) 0 = Some 2 \<and>
   entanglements (snd (apply_gate stale_start CNOT 0 2)) 2 = Some 0 \<and>
   entanglements (snd (apply_gate stale_start CNOT 0 2)) 1 = Some 0"
  by (simp add: stale_start_def sys_defs Let_def)

subsection \<open>Commands after the end of the match\<close>

text \<open>
  \<^verbatim>\<open>apply_gate\<close> and \<^verbatim>\<open>shoot\<close> test \<^verbatim>\<open>game_over\<close> after the phase: both fail and
  leave the game as it is.
\<close>

lemma game_apply_gate_after_game_over:
  "game_over g \<Longrightarrow>
   game_apply_gate g gt t1 t2 =
     Inr ((False, if phase g \<noteq> ''playing'' then NotPlayingPhase else GameIsOver), g)"
  by (simp add: game_apply_gate_def)

lemma shoot_after_game_over:
  "game_over g \<Longrightarrow>
   shoot g shoot_self sample =
     Inr (ShotFailed (if phase g \<noteq> ''playing'' then NotPlayingPhase else GameIsOver), g)"
  by (simp add: shoot_def)

text \<open>
  C2. The claim: once \<^verbatim>\<open>game_over\<close> is true, \<^verbatim>\<open>apply_gate\<close>, \<^verbatim>\<open>shoot\<close> and
  \<^verbatim>\<open>use_peek\<close> fail and change nothing. \<^verbatim>\<open>use_peek\<close> has no test of \<^verbatim>\<open>game_over\<close>:
  in the match \<open>duel_over\<close>, which player 1 has just won, the phase is still playing,
  and \<^verbatim>\<open>use_peek\<close> succeeds, returns the unused gates of player 2 and spends the peek
  token of player 1.
\<close>

theorem use_peek_after_game_over:
  "game_over duel_over \<and> phase duel_over = ''playing'' \<and>
   use_peek duel_over =
     ((True, [\<lparr>gate_type = H, used = False\<rparr>]),
      duel_over\<lparr>player1 := (player1 duel_over)\<lparr>peek_available := False\<rparr>\<rparr>) \<and>
   snd (use_peek duel_over) \<noteq> duel_over"
  by (simp add: duel_over_eq use_peek_def get_opponent_def get_available_gates_def Let_def)

subsection \<open>Gate selection\<close>

text \<open>
  C7. \<^verbatim>\<open>submit_gate_selection\<close> succeeds exactly when the list has the configured
  number of gate kinds; with any other length it returns \<open>False\<close> and the game, hence
  the phase, the selecting player and both inventories, is unchanged.
\<close>

theorem submit_gate_selection_length:
  "(fst (submit_gate_selection g pid selected_gates)
      \<longleftrightarrow> int (length selected_gates) = num_gates g) \<and>
   (int (length selected_gates) \<noteq> num_gates g \<longrightarrow>
      submit_gate_selection g pid selected_gates = (False, g))"
  by (simp add: submit_gate_selection_def Let_def)

theorem submit_gate_selection_length_witness:
  "int (length [X, X]) \<noteq> num_gates (new_game 6 3 3) \<and>
   submit_gate_selection (new_game 6 3 3) 1 [X, X] = (False, new_game 6 3 3) \<and>
   fst (submit_gate_selection (new_game 6 3 3) 1 [X, X, H])"
  using submit_gate_selection_length [of "new_game 6 3 3" 1 "[X, X]"]
    submit_gate_selection_length [of "new_game 6 3 3" 1 "[X, X, H]"]
  by (simp add: new_game_def)

text \<open>
  C9. \<^verbatim>\<open>submit_gate_selection\<close> tests nothing but the length of the list. In any
  game state, whatever the phase and \<^verbatim>\<open>game_over\<close>, a list of the configured length
  succeeds; with \<open>player_id = 1\<close> the gates go to player 1 and the selecting player
  becomes 2; with any other \<open>player_id\<close> the gates go to player 2 and the phase becomes
  \<^verbatim>\<open>show_bullets\<close>.
\<close>

theorem submit_gate_selection_unchecked:
  assumes "int (length selected_gates) = num_gates g"
  shows "fst (submit_gate_selection g pid selected_gates) \<and>
         (pid \<noteq> 1 \<longrightarrow>
            snd (submit_gate_selection g pid selected_gates) =
              g\<lparr>player2 := set_gates (player2 g) selected_gates,
                phase := ''show_bullets''\<rparr>) \<and>
         (pid = 1 \<longrightarrow>
            snd (submit_gate_selection g pid selected_gates) =
              g\<lparr>player1 := set_gates (player1 g) selected_gates,
                gate_selection_player := 2\<rparr>)"
  using assms by (simp add: submit_gate_selection_def Let_def)

theorem submit_gate_selection_unchecked_witness:
  "game_over duel_over \<and> phase duel_over = ''playing'' \<and>
   int (length [CNOT]) = num_gates duel_over \<and>
   fst (submit_gate_selection duel_over 0 [CNOT]) \<and>
   snd (submit_gate_selection duel_over 0 [CNOT]) =
     duel_over\<lparr>player2 := set_gates (player2 duel_over) [CNOT], phase := ''show_bullets''\<rparr> \<and>
   gates (player2 (snd (submit_gate_selection duel_over 3 [CNOT]))) =
     [\<lparr>gate_type = CNOT, used = False\<rparr>]"
proof -
  have len: "int (length [CNOT]) = num_gates duel_over"
    by (simp add: duel_over_eq)
  show ?thesis
    using len submit_gate_selection_unchecked [OF len, of 0]
      submit_gate_selection_unchecked [OF len, of 3]
    by (simp add: duel_over_eq set_gates_def)
qed

subsection \<open>The initial configuration\<close>

text \<open>
  C10. \<^verbatim>\<open>initialize_bullets\<close> stores the sorted input list, out-of-range positions
  included, and \<^verbatim>\<open>get_initial_bullet_config\<close> reports that list for a game that holds
  the initialized bullet system; the circuit gets an X gate for the in-range positions
  of the list only.
\<close>

theorem initial_live_positions_unfiltered:
  "initial_live_positions (initialize_bullets s live_positions) = sort live_positions \<and>
   get_initial_bullet_config
       (g\<lparr>bullet_system := Some (initialize_bullets s live_positions)\<rparr>) =
     (game_num_bullets g, sort live_positions) \<and>
   set (circuit (initialize_bullets s live_positions)) =
     (\<lambda>pos. Gate1 X (nat pos)) `
       {pos \<in> set live_positions. 0 \<le> pos \<and> pos < int (num_bullets s)}"
  by (auto simp: initialize_bullets_def get_initial_bullet_config_def)

theorem initial_live_positions_unfiltered_witness:
  "initial_live_positions (initialize_bullets (new_system 3) [5, 1, - 2]) = [- 2, 1, 5] \<and>
   get_initial_bullet_config
       ((new_game 3 1 1)\<lparr>bullet_system :=
           Some (initialize_bullets (new_system 3) [5, 1, - 2])\<rparr>) =
     (3, [- 2, 1, 5]) \<and>
   circuit (initialize_bullets (new_system 3) [5, 1, - 2]) = [Gate1 X 1]"
  using initial_live_positions_unfiltered [of "new_system 3" "[5, 1, - 2]" "new_game 3 1 1"]
  by (simp add: new_system_def new_game_def initialize_bullets_def)

subsection \<open>Resolution of a shot\<close>

text \<open>
  The constructor gives the two players the ids 1 and 2 and no method changes an id, so
  the field-wise comparison of \<^verbatim>\<open>get_opponent\<close> tells the two objects apart.
\<close>

lemma players_differ: "player_id a \<noteq> player_id b \<Longrightarrow> (a = b) = False"
  by auto

lemma get_opponent_other:
  "player_id (player1 g) \<noteq> player_id (player2 g) \<Longrightarrow> get_opponent g r = other_player r"
  by (cases r) (auto simp: get_opponent_def)

text \<open>
  C4. A successful \<^verbatim>\<open>shoot\<close> happens in the playing phase of a match that is not
  over and fires the next position. On a live outcome the target (the shooter on a
  self-shot, the opponent otherwise) loses a life, down to 0 at most; when the target
  has no life left the match is over and the winner is the other player, otherwise the
  turn passes to the opponent of the shooter and the flag of the gate of this turn is
  cleared. On a blank self-shot the current player stays and the flag is cleared; on a
  blank shot at the opponent the current player changes.
\<close>

theorem shoot_resolution:
  assumes ids: "player_id (player1 g) \<noteq> player_id (player2 g)"
    and ok: "shoot g shoot_self sample = Inr (ShotDone info, g')"
  shows "phase g = ''playing'' \<and> \<not> game_over g \<and>
    (\<exists>bs idx r bs'.
        bullet_system g = Some bs \<and> fire_next_bullet bs sample = Inr ((idx, r), bs') \<and>
        bullet_system g' = Some bs' \<and> info_bullet_index info = idx \<and>
        info_is_live info = (r = Some 1)) \<and>
    (let shooter = current_player g;
         target = (if shoot_self then shooter else other_player shooter)
     in (info_is_live info \<longrightarrow>
           lives (the_player g' target) = max 0 (lives (the_player g target) - 1) \<and>
           (if lives (the_player g' target) = 0
            then game_over g' \<and> winner g' = Some (other_player target)
            else \<not> game_over g' \<and> current_player g' = other_player shooter \<and>
                 \<not> gate_applied_this_turn g')) \<and>
        (\<not> info_is_live info \<and> shoot_self \<longrightarrow>
           \<not> game_over g' \<and> current_player g' = shooter \<and> \<not> gate_applied_this_turn g' \<and>
           info_extra_turn info) \<and>
        (\<not> info_is_live info \<and> \<not> shoot_self \<longrightarrow>
           \<not> game_over g' \<and> current_player g' = other_player shooter \<and>
           \<not> gate_applied_this_turn g'))"
proof -
  from ok have ph: "phase g = ''playing''" and go: "\<not> game_over g"
    by (auto simp: shoot_def split: if_splits)
  from ok ph go obtain bs where bs: "bullet_system g = Some bs"
    by (auto simp: shoot_def Let_def split: option.splits)
  from ok ph go bs obtain idx r bs' where
    fire: "fire_next_bullet bs sample = Inr ((idx, r), bs')" and nonneg: "\<not> idx < 0"
    by (auto simp: shoot_def Let_def split: sum.splits if_splits prod.splits)
  note ids' = ids ids [symmetric]
  have main: "bullet_system g' = Some bs' \<and> info_bullet_index info = idx \<and>
        info_is_live info = (r = Some 1) \<and>
    (let shooter = current_player g;
         target = (if shoot_self then shooter else other_player shooter)
     in (info_is_live info \<longrightarrow>
           lives (the_player g' target) = max 0 (lives (the_player g target) - 1) \<and>
           (if lives (the_player g' target) = 0
            then game_over g' \<and> winner g' = Some (other_player target)
            else \<not> game_over g' \<and> current_player g' = other_player shooter \<and>
                 \<not> gate_applied_this_turn g')) \<and>
        (\<not> info_is_live info \<and> shoot_self \<longrightarrow>
           \<not> game_over g' \<and> current_player g' = shooter \<and> \<not> gate_applied_this_turn g' \<and>
           info_extra_turn info) \<and>
        (\<not> info_is_live info \<and> \<not> shoot_self \<longrightarrow>
           \<not> game_over g' \<and> current_player g' = other_player shooter \<and>
           \<not> gate_applied_this_turn g'))"
  proof (cases "current_player g")
    case P1
    show ?thesis
    proof (cases shoot_self)
      case True
      with ok ph go bs fire nonneg P1 ids' show ?thesis
        by (auto simp: shoot_def Let_def take_damage_def is_alive_def get_opponent_def
            players_differ split: if_splits)
    next
      case False
      with ok ph go bs fire nonneg P1 ids' show ?thesis
        by (auto simp: shoot_def Let_def take_damage_def is_alive_def get_opponent_def
            players_differ split: if_splits)
    qed
  next
    case P2
    show ?thesis
    proof (cases shoot_self)
      case True
      with ok ph go bs fire nonneg P2 ids' show ?thesis
        by (auto simp: shoot_def Let_def take_damage_def is_alive_def get_opponent_def
            players_differ split: if_splits)
    next
      case False
      with ok ph go bs fire nonneg P2 ids' show ?thesis
        by (auto simp: shoot_def Let_def take_damage_def is_alive_def get_opponent_def
            players_differ split: if_splits)
    qed
  qed
  with ph go bs fire show ?thesis by blast
qed


text \<open>
  Two shots with the only outcome the Born rule gives them: the lethal live shot of
  \<open>duel\<close>, and a blank self-shot in \<open>duel_blank\<close>.
\<close>

lemma duel_blank_eq:
  "duel_blank =
     \<lparr>game_num_bullets = 2, num_gates = 1, initial_lives = 1,
      player1 = \<lparr>name = ''Player 1'', player_id = 1, lives = 1,
                 gates = [\<lparr>gate_type = X, used = False\<rparr>],
                 peek_available = True, applied_gates_history = []\<rparr>,
      player2 = \<lparr>name = ''Player 2'', player_id = 2, lives = 1,
                 gates = [\<lparr>gate_type = H, used = False\<rparr>],
                 peek_available = True, applied_gates_history = []\<rparr>,
      current_player = P1,
      bullet_system = Some
        \<lparr>num_bullets = 2, circuit = [Gate1 X (Suc 0)], entanglements = Map.empty,
         measured = [False, False], measurement_results = [None, None],
         initial_live_positions = [1], current_bullet_index = 0,
         collapsed_states = Map.empty\<rparr>,
      round_number = 1, game_over = False, winner = None, phase = ''playing'',
      gate_selection_player = 2, gate_applied_this_turn = False\<rparr>"
  by (simp add: duel_blank_def game_defs sys_defs Let_def numeral_2_eq_2)

lemma duel_sample_probabilities:
  "map_option (\<lambda>bs. sample_probability bs 0 True) (bullet_system duel) = Some 1"
  "map_option (\<lambda>bs. sample_probability bs 0 False) (bullet_system duel_blank) = Some 1"
  by (simp_all add: duel_eq duel_blank_eq sample_probability_def simulator_run_def
      marginal_def apply_matrix_def gate_matrix_def bit_value_def upt_conv_Cons)

theorem shoot_resolution_witness:
  "player_id (player1 duel) \<noteq> player_id (player2 duel) \<and>
   player_id (player1 duel_blank) \<noteq> player_id (player2 duel_blank) \<and>
   map_option (\<lambda>bs. sample_probability bs 0 True) (bullet_system duel) = Some 1 \<and>
   map_option (\<lambda>bs. sample_probability bs 0 False) (bullet_system duel_blank) = Some 1 \<and>
   (case shoot duel False True of
      Inr (ShotDone info, g') \<Rightarrow>
        info_is_live info \<and> lives (player2 g') = 0 \<and> game_over g' \<and> winner g' = Some P1
    | _ \<Rightarrow> False) \<and>
   (case shoot duel_blank True False of
      Inr (ShotDone info, g') \<Rightarrow>
        \<not> info_is_live info \<and> current_player g' = P1 \<and> \<not> gate_applied_this_turn g'
    | _ \<Rightarrow> False)"
proof -
  have ids: "player_id (player1 duel) \<noteq> player_id (player2 duel)"
    by (simp add: duel_eq)
  have ids2: "player_id (player1 duel_blank) \<noteq> player_id (player2 duel_blank)"
    by (simp add: duel_blank_eq)
  obtain info1 g1 where s1: "shoot duel False True = Inr (ShotDone info1, g1)"
    by (simp add: duel_eq game_defs Let_def skip_measured.simps)
  obtain info2 g2 where s2: "shoot duel_blank True False = Inr (ShotDone info2, g2)"
    by (simp add: duel_blank_eq game_defs Let_def skip_measured.simps)
  have live1: "info_is_live info1"
    using s1 by (auto simp: duel_eq game_defs Let_def skip_measured.simps)
  have blank2: "\<not> info_is_live info2"
    using s2 by (auto simp: duel_blank_eq game_defs Let_def skip_measured.simps)
  have cp: "current_player duel = P1" and l2: "lives (player2 duel) = 1"
    and cp2: "current_player duel_blank = P1"
    by (simp_all add: duel_eq duel_blank_eq)
  show ?thesis
    using ids ids2 live1 blank2 duel_sample_probabilities
      shoot_resolution [OF ids s1] shoot_resolution [OF ids2 s2]
    by (simp add: s1 s2 cp cp2 l2 Let_def split: if_splits)
qed

subsection \<open>What a player sees\<close>


lemma apply_gate_keeps:
  "apply_gate s gt t1 t2 = (ok, s') \<Longrightarrow>
   measured s' = measured s \<and> measurement_results s' = measurement_results s \<and>
   initial_live_positions s' = initial_live_positions s \<and> num_bullets s' = num_bullets s \<and>
   current_bullet_index s' = current_bullet_index s \<and> collapsed_states s' = collapsed_states s"
  by (auto simp: apply_gate_def break_entanglement_def Let_def split: if_splits option.splits)

lemma apply_gate_acts_on:
  assumes "apply_gate s gt t1 t2 = (True, s')"
  shows "\<exists>i. circuit s' = circuit s @ [i] \<and> instr_qubits i = {p. acts_on gt t1 t2 p}"
proof (cases "gt = CNOT")
  case True
  with assms have "circuit s' = circuit s @ [CX (nat t1) (nat t2)]" and "0 \<le> t1" and "0 \<le> t2"
    by (auto simp: apply_gate_def is_two_qubit_def Let_def split: if_splits)
  with True show ?thesis
    by (auto simp: acts_on_def is_two_qubit_def)
next
  case False
  with assms have "circuit s' = circuit s @ [Gate1 gt (nat t1)]" and "0 \<le> t1"
    by (auto simp: apply_gate_def is_two_qubit_def Let_def split: if_splits)
  with False show ?thesis
    by (auto simp: acts_on_def is_two_qubit_def)
qed





lemma set_player_other_fields [simp]:
  "game_num_bullets (set_player g r p) = game_num_bullets g"
  "bullet_system (set_player g r p) = bullet_system g"
  "current_player (set_player g r p) = current_player g"
  by (cases r; simp)+

lemma the_player_update [simp]:
  "the_player (g\<lparr>bullet_system := b\<rparr>) q = the_player g q"
  "the_player (g\<lparr>gate_applied_this_turn := f\<rparr>) q = the_player g q"
  "the_player (g\<lparr>current_player := c\<rparr>) q = the_player g q"
  "the_player (g\<lparr>game_over := z\<rparr>) q = the_player g q"
  "the_player (g\<lparr>winner := w\<rparr>) q = the_player g q"
  "the_player (g\<lparr>phase := ph\<rparr>) q = the_player g q"
  "the_player (g\<lparr>gate_selection_player := n\<rparr>) q = the_player g q"
  by (cases q; simp)+































subsection \<open>The firing queue\<close>

text \<open>The loop stops at the first unmeasured position at or after its start, or at \<open>n\<close>.\<close>

lemma skip_measured_ge: "i \<le> skip_measured ms n i"
proof (induction ms n i rule: skip_measured.induct)
  case (1 ms n i)
  show ?case
  proof (cases "i < n \<and> ms ! i")
    case True
    with 1 have "Suc i \<le> skip_measured ms n (Suc i)" by simp
    with True show ?thesis by (subst skip_measured.simps) simp
  next
    case False
    then show ?thesis by (subst skip_measured.simps) auto
  qed
qed

lemma skip_measured_le: "i \<le> n \<Longrightarrow> skip_measured ms n i \<le> n"
proof (induction ms n i rule: skip_measured.induct)
  case (1 ms n i)
  show ?case
  proof (cases "i < n \<and> ms ! i")
    case True
    with 1 have "skip_measured ms n (Suc i) \<le> n" by simp
    with True show ?thesis by (subst skip_measured.simps) simp
  next
    case False
    with 1 show ?thesis by (subst skip_measured.simps) auto
  qed
qed

lemma skip_measured_stop:
  "skip_measured ms n i < n \<Longrightarrow> \<not> ms ! skip_measured ms n i"
proof (induction ms n i rule: skip_measured.induct)
  case (1 ms n i)
  show ?case
  proof (cases "i < n \<and> ms ! i")
    case True
    then have eq: "skip_measured ms n i = skip_measured ms n (Suc i)"
      by (subst skip_measured.simps) simp
    with 1 True show ?thesis by simp
  next
    case False
    then have eq: "skip_measured ms n i = i"
      by (subst skip_measured.simps) auto
    with 1 False show ?thesis by auto
  qed
qed

lemma skip_measured_between:
  "i \<le> j \<Longrightarrow> j < skip_measured ms n i \<Longrightarrow> ms ! j"
proof (induction ms n i rule: skip_measured.induct)
  case (1 ms n i)
  show ?case
  proof (cases "i < n \<and> ms ! i")
    case True
    then have eq: "skip_measured ms n i = skip_measured ms n (Suc i)"
      by (subst skip_measured.simps) simp
    show ?thesis
    proof (cases "j = i")
      case True
      with \<open>i < n \<and> ms ! i\<close> show ?thesis by simp
    next
      case False
      with 1 True eq show ?thesis by simp
    qed
  next
    case False
    then have eq: "skip_measured ms n i = i"
      by (subst skip_measured.simps) auto
    with 1 show ?thesis by simp
  qed
qed

lemma measure_bullet_unmeasured:
  assumes "wf_system s" and "q < num_bullets s" and "\<not> measured s ! q"
  shows "\<exists>v s'. measure_bullet s q b = Inr (Some v, s') \<and>
           measured s' = (measured s)[q := True] \<and>
           measurement_results s' = (measurement_results s)[q := Some v] \<and>
           num_bullets s' = num_bullets s \<and>
           initial_live_positions s' = initial_live_positions s \<and>
           current_bullet_index s' =
             skip_measured ((measured s)[q := True]) (num_bullets s)
               (current_bullet_index s + 1)"
  using assms
  by (auto simp: measure_bullet_def wf_system_def advance_def Let_def split: option.splits)


lemma fire_next_exhausted:
  "num_bullets s \<le> current_bullet_index s \<Longrightarrow>
   fire_next_bullet s b = Inr ((- 1, Some (- 1)), s)"
  by (simp add: fire_next_bullet_def)

lemma fire_next_step:
  assumes ok: "queue_ok s" and lt: "current_bullet_index s < num_bullets s"
  shows "\<exists>v s'. fire_next_bullet s b = Inr ((int (current_bullet_index s), Some v), s') \<and>
           queue_ok s' \<and> num_bullets s' = num_bullets s \<and>
           measured s' = (measured s)[current_bullet_index s := True] \<and>
           current_bullet_index s < current_bullet_index s' \<and>
           current_bullet_index s' \<le> num_bullets s \<and>
           (\<forall>j. current_bullet_index s \<le> j \<and> j < current_bullet_index s' \<longrightarrow>
                measured s' ! j)"
proof -
  let ?p = "current_bullet_index s"
  let ?ms = "(measured s)[?p := True]"
  from ok lt have wf: "wf_system s" and unm: "\<not> measured s ! ?p"
    by (simp_all add: queue_ok_def)
  from measure_bullet_unmeasured [OF wf lt unm, of b]
  obtain v s' where m: "measure_bullet s ?p b = Inr (Some v, s')"
    and ms: "measured s' = ?ms"
    and rs: "measurement_results s' = (measurement_results s)[?p := Some v]"
    and n: "num_bullets s' = num_bullets s"
    and p': "current_bullet_index s' = skip_measured ?ms (num_bullets s) (?p + 1)"
    by blast
  have fire: "fire_next_bullet s b = Inr ((int ?p, Some v), s')"
    using lt m by (simp add: fire_next_bullet_def)
  have gt: "?p < current_bullet_index s'"
    using skip_measured_ge [of "?p + 1" ?ms "num_bullets s"] p' by simp
  have le: "current_bullet_index s' \<le> num_bullets s"
    using skip_measured_le [of "?p + 1" "num_bullets s" ?ms] lt p' by simp
  have between: "measured s' ! j" if "?p \<le> j" "j < current_bullet_index s'" for j
  proof (cases "j = ?p")
    case True
    with wf lt show ?thesis by (simp add: ms wf_system_def)
  next
    case False
    with that have "?p + 1 \<le> j" by simp
    from skip_measured_between [OF this] that(2) show ?thesis
      by (simp add: ms p')
  qed
  have stop: "current_bullet_index s' < num_bullets s' \<longrightarrow>
              \<not> measured s' ! current_bullet_index s'"
    using skip_measured_stop [of ?ms "num_bullets s" "?p + 1"] by (simp add: ms n p')
  have "queue_ok s'"
    using wf stop by (simp add: queue_ok_def wf_system_def ms rs n)
  with fire n ms gt le between show ?thesis by blast
qed

lemma all_measured_exhausted:
  assumes "queue_ok s" and "all_measured s"
  shows "num_bullets s \<le> current_bullet_index s"
proof (rule ccontr)
  assume "\<not> num_bullets s \<le> current_bullet_index s"
  then have lt: "current_bullet_index s < num_bullets s" by simp
  with assms(1) have "\<not> measured s ! current_bullet_index s"
    and "current_bullet_index s < length (measured s)"
    by (simp_all add: queue_ok_def wf_system_def)
  with assms(2) show False
    by (simp add: all_measured_def list_all_length)
qed

lemma fire_seq_exhausted:
  "num_bullets s \<le> current_bullet_index s \<Longrightarrow>
   fire_seq s samples = Inr (replicate (length samples) (- 1, Some (- 1)), s)"
  by (induction samples) (simp_all add: fire_next_exhausted)

lemma fire_seq_run:
  assumes "queue_ok s"
  shows "\<exists>rs s'. fire_seq s samples = Inr (rs, s') \<and> queue_ok s' \<and>
           num_bullets s' = num_bullets s \<and>
           current_bullet_index s \<le> current_bullet_index s' \<and>
           (\<forall>j < num_bullets s. measured s ! j \<longrightarrow> measured s' ! j) \<and>
           sorted_wrt (<) (filter (\<lambda>i. i \<noteq> - 1) (map fst rs)) \<and>
           (\<forall>i \<in> set (filter (\<lambda>i. i \<noteq> - 1) (map fst rs)).
               int (current_bullet_index s) \<le> i \<and> i < int (current_bullet_index s') \<and>
               i < int (num_bullets s) \<and>
               \<not> measured s ! nat i \<and> measured s' ! nat i)"
  using assms
proof (induction samples arbitrary: s)
  case Nil
  then show ?case by simp
next
  case (Cons b bs)
  show ?case
  proof (cases "current_bullet_index s < num_bullets s")
    case False
    then have ex: "num_bullets s \<le> current_bullet_index s" by simp
    have none: "filter (\<lambda>i. i \<noteq> - 1)
                  (map fst (replicate n (- 1 :: int, Some (- 1 :: int)))) = []" for n
      by (induction n) simp_all
    show ?thesis
      using Cons.prems fire_seq_exhausted [OF ex, of "b # bs"] none [of "length (b # bs)"]
      by (simp del: fire_seq.simps replicate.simps length_Cons list.size)
  next
    case True
    let ?p = "current_bullet_index s"
    from fire_next_step [OF Cons.prems True, of b]
    obtain v s1 where f: "fire_next_bullet s b = Inr ((int ?p, Some v), s1)"
      and ok1: "queue_ok s1" and n1: "num_bullets s1 = num_bullets s"
      and ms1: "measured s1 = (measured s)[?p := True]"
      and gt: "?p < current_bullet_index s1"
      and le1: "current_bullet_index s1 \<le> num_bullets s"
      by blast
    from Cons.IH [OF ok1]
    obtain rs s' where r: "fire_seq s1 bs = Inr (rs, s')" and ok': "queue_ok s'"
      and n': "num_bullets s' = num_bullets s1"
      and mono: "current_bullet_index s1 \<le> current_bullet_index s'"
      and keep: "\<forall>j < num_bullets s1. measured s1 ! j \<longrightarrow> measured s' ! j"
      and srt: "sorted_wrt (<) (filter (\<lambda>i. i \<noteq> - 1) (map fst rs))"
      and each: "\<forall>i \<in> set (filter (\<lambda>i. i \<noteq> - 1) (map fst rs)).
               int (current_bullet_index s1) \<le> i \<and> i < int (current_bullet_index s') \<and>
               i < int (num_bullets s1) \<and>
               \<not> measured s1 ! nat i \<and> measured s' ! nat i"
      by blast
    let ?fired = "filter (\<lambda>i. i \<noteq> - 1) (map fst rs)"
    have len: "?p < length (measured s)"
      using Cons.prems True by (simp add: queue_ok_def wf_system_def)
    have unm: "\<not> measured s ! ?p"
      using Cons.prems True by (simp add: queue_ok_def)
    have seq: "fire_seq s (b # bs) = Inr ((int ?p, Some v) # rs, s')"
      by (simp add: f r)
    have fired: "filter (\<lambda>i. i \<noteq> - 1) (map fst ((int ?p, Some v) # rs)) = int ?p # ?fired"
      by simp
    have keep': "\<forall>j < num_bullets s. measured s ! j \<longrightarrow> measured s' ! j"
    proof (intro allI impI)
      fix j assume j: "j < num_bullets s" and m: "measured s ! j"
      have "measured s1 ! j"
        using m len by (cases "j = ?p") (simp_all add: ms1)
      with keep j n1 show "measured s' ! j" by simp
    qed
    have p_done: "measured s' ! ?p"
    proof -
      have "measured s1 ! ?p" using len by (simp add: ms1)
      with keep True n1 show ?thesis by simp
    qed
    have srt': "sorted_wrt (<) (int ?p # ?fired)"
      using srt each gt by auto
    have each': "\<forall>i \<in> set (int ?p # ?fired).
               int ?p \<le> i \<and> i < int (current_bullet_index s') \<and> i < int (num_bullets s) \<and>
               \<not> measured s ! nat i \<and> measured s' ! nat i"
    proof
      fix i assume "i \<in> set (int ?p # ?fired)"
      then consider "i = int ?p" | "i \<in> set ?fired" by auto
      then show "int ?p \<le> i \<and> i < int (current_bullet_index s') \<and> i < int (num_bullets s) \<and>
               \<not> measured s ! nat i \<and> measured s' ! nat i"
      proof cases
        case 1
        with gt mono True unm p_done show ?thesis by simp
      next
        case 2
        with each have a: "int (current_bullet_index s1) \<le> i"
          and b: "i < int (current_bullet_index s')" and c: "i < int (num_bullets s1)"
          and d: "\<not> measured s1 ! nat i" and e: "measured s' ! nat i"
          by auto
        from a gt have ne: "nat i \<noteq> ?p" by linarith
        with d have "\<not> measured s ! nat i" by (simp add: ms1)
        with a b c e gt n1 show ?thesis by simp
      qed
    qed
    show ?thesis
      using seq ok' n' n1 mono gt keep' srt' each' unfolding fired
      by (intro exI [of _ "(int ?p, Some v) # rs"] exI [of _ s']) simp
  qed
qed


lemma queue_ok_initialize: "queue_ok (initialize_bullets s live_positions)"
  by (simp add: queue_ok_def wf_system_def initialize_bullets_def)

lemma queue_ok_apply_gate:
  "queue_ok s \<Longrightarrow> apply_gate s g t1 t2 = (ok, s') \<Longrightarrow> queue_ok s'"
  by (drule apply_gate_keeps) (simp add: queue_ok_def wf_system_def)

lemma queue_ok_measure_bullet:
  assumes ok: "queue_ok s" and m: "measure_bullet s q b = Inr (r, s')"
  shows "queue_ok s'"
proof (cases "measured s ! q")
  case True
  with m have "s' = s" by (auto simp: measure_bullet_def split: if_splits)
  with ok show ?thesis by simp
next
  case False
  from ok have wf: "wf_system s" by (simp add: queue_ok_def)
  from m wf have q: "q < num_bullets s"
    by (auto simp: measure_bullet_def wf_system_def split: if_splits)
  from measure_bullet_unmeasured [OF wf q False, of b] m
  have ms: "measured s' = (measured s)[q := True]"
    and n: "num_bullets s' = num_bullets s"
    and p: "current_bullet_index s' =
             skip_measured ((measured s)[q := True]) (num_bullets s)
               (current_bullet_index s + 1)"
    and "length (measurement_results s') = length (measurement_results s)"
    by auto
  with wf skip_measured_stop [of "(measured s)[q := True]" "num_bullets s"
      "current_bullet_index s + 1"]
  show ?thesis by (simp add: queue_ok_def wf_system_def)
qed

text \<open>
  C5. In a run of \<^verbatim>\<open>fire_next_bullet\<close> calls the positions fired are strictly
  increasing, hence no position is fired twice, and each was unmeasured before the run
  and is measured after it. A call with the pointer inside the chamber fires the
  position at the pointer and moves the pointer forward, past measured positions only,
  to an unmeasured position or to the end. With the pointer at the end, which is the
  case when every position is measured, every call returns \<open>(-1, -1)\<close> and the state
  is unchanged.
\<close>

theorem fire_next_never_repeats:
  assumes "queue_ok s"
  shows "(\<exists>rs s'. fire_seq s samples = Inr (rs, s') \<and>
            (let fired = filter (\<lambda>i. i \<noteq> - 1) (map fst rs) in
               distinct fired \<and> sorted_wrt (<) fired \<and>
               (\<forall>i \<in> set fired. 0 \<le> i \<and> i < int (num_bullets s) \<and>
                   \<not> measured s ! nat i \<and> measured s' ! nat i)) \<and>
            (all_measured s \<longrightarrow>
               rs = replicate (length samples) (- 1, Some (- 1)) \<and> s' = s)) \<and>
         (current_bullet_index s < num_bullets s \<longrightarrow>
            (\<exists>v s1. fire_next_bullet s b = Inr ((int (current_bullet_index s), Some v), s1) \<and>
               current_bullet_index s < current_bullet_index s1 \<and>
               (\<forall>j. current_bullet_index s \<le> j \<and> j < current_bullet_index s1 \<longrightarrow>
                    measured s1 ! j) \<and>
               (current_bullet_index s1 < num_bullets s \<longrightarrow>
                  \<not> measured s1 ! current_bullet_index s1))) \<and>
         (num_bullets s \<le> current_bullet_index s \<longrightarrow>
            fire_next_bullet s b = Inr ((- 1, Some (- 1)), s))"
proof (intro conjI impI)
  from fire_seq_run [OF assms, of samples]
  obtain rs s' where r: "fire_seq s samples = Inr (rs, s')"
    and srt: "sorted_wrt (<) (filter (\<lambda>i. i \<noteq> - 1) (map fst rs))"
    and each: "\<forall>i \<in> set (filter (\<lambda>i. i \<noteq> - 1) (map fst rs)).
               int (current_bullet_index s) \<le> i \<and> i < int (current_bullet_index s') \<and>
               i < int (num_bullets s) \<and>
               \<not> measured s ! nat i \<and> measured s' ! nat i"
    by blast
  have dist: "distinct (filter (\<lambda>i. i \<noteq> - 1) (map fst rs))"
    using srt strict_sorted_iff by blast
  have fin: "rs = replicate (length samples) (- 1, Some (- 1)) \<and> s' = s" if "all_measured s"
    using fire_seq_exhausted [OF all_measured_exhausted [OF assms that], of samples] r by simp
  have nonneg: "\<forall>i \<in> set (filter (\<lambda>i. i \<noteq> - 1) (map fst rs)). 0 \<le> i"
    using each by fastforce
  show "\<exists>rs s'. fire_seq s samples = Inr (rs, s') \<and>
            (let fired = filter (\<lambda>i. i \<noteq> - 1) (map fst rs) in
               distinct fired \<and> sorted_wrt (<) fired \<and>
               (\<forall>i \<in> set fired. 0 \<le> i \<and> i < int (num_bullets s) \<and>
                   \<not> measured s ! nat i \<and> measured s' ! nat i)) \<and>
            (all_measured s \<longrightarrow>
               rs = replicate (length samples) (- 1, Some (- 1)) \<and> s' = s)"
    using r dist srt each nonneg fin unfolding Let_def
    by (intro exI [of _ rs] exI [of _ s']) blast
next
  assume lt: "current_bullet_index s < num_bullets s"
  from fire_next_step [OF assms lt, of b]
  obtain v s1 where f: "fire_next_bullet s b = Inr ((int (current_bullet_index s), Some v), s1)"
    and ok1: "queue_ok s1" and n1: "num_bullets s1 = num_bullets s"
    and gt: "current_bullet_index s < current_bullet_index s1"
    and between: "\<forall>j. current_bullet_index s \<le> j \<and> j < current_bullet_index s1 \<longrightarrow>
                measured s1 ! j"
    by blast
  from ok1 n1 have "current_bullet_index s1 < num_bullets s \<longrightarrow>
                  \<not> measured s1 ! current_bullet_index s1"
    by (simp add: queue_ok_def)
  with f gt between
  show "\<exists>v s1. fire_next_bullet s b = Inr ((int (current_bullet_index s), Some v), s1) \<and>
               current_bullet_index s < current_bullet_index s1 \<and>
               (\<forall>j. current_bullet_index s \<le> j \<and> j < current_bullet_index s1 \<longrightarrow>
                    measured s1 ! j) \<and>
               (current_bullet_index s1 < num_bullets s \<longrightarrow>
                  \<not> measured s1 ! current_bullet_index s1)"
    by blast
next
  assume "num_bullets s \<le> current_bullet_index s"
  then show "fire_next_bullet s b = Inr ((- 1, Some (- 1)), s)"
    by (rule fire_next_exhausted)
qed


lemma skip_start_eq:
  "skip_start =
     \<lparr>num_bullets = 4, circuit = [Gate1 X 1, Measure 2], entanglements = Map.empty,
      measured = [False, False, True, False],
      measurement_results = [None, None, Some 0, None],
      initial_live_positions = [1], current_bullet_index = 1,
      collapsed_states = Map.empty\<rparr>"
  by (simp add: skip_start_def measure_bullet_def initialize_bullets_def new_system_def
      advance_def Let_def skip_measured.simps numeral_eq_Suc)

theorem fire_next_never_repeats_witness:
  "queue_ok skip_start \<and>
   (case fire_seq skip_start [True, False, True] of
      Inr (rs, s') \<Rightarrow>
        rs = [(1, Some 1), (3, Some 0), (- 1, Some (- 1))] \<and> current_bullet_index s' = 4
    | Inl e \<Rightarrow> False)"
proof -
  have ok: "queue_ok skip_start"
    by (simp add: skip_start_eq queue_ok_def wf_system_def)
  have run: "case fire_seq skip_start [True, False, True] of
      Inr (rs, s') \<Rightarrow>
        rs = [(1, Some 1), (3, Some 0), (- 1, Some (- 1))] \<and> current_bullet_index s' = 4
    | Inl e \<Rightarrow> False"
    by (simp add: skip_start_eq fire_next_bullet_def measure_bullet_def advance_def Let_def
        skip_measured.simps)
  show ?thesis
    using ok run fire_next_never_repeats [OF ok, of "[True, False, True]" True]
    by simp
qed

subsection \<open>Collapse of an entangled partner\<close>



























subsection \<open>Pauli-X twice\<close>

text \<open>
  The X gate on position \<open>q\<close> exchanges the amplitudes of the indices that differ in
  bit \<open>q\<close>; inside a vector of \<open>2 ^ n\<close> amplitudes both indices exist.
\<close>

lemma bit_value_add:
  assumes "bit_value i q = 0"
  shows "bit_value (i + 2 ^ q) q = 1"
proof -
  define d where "d = i div 2 ^ q"
  have e: "(i + 2 ^ q) div 2 ^ q = d + 1"
    by (simp add: d_def)
  from assms have "d mod 2 = 0"
    by (simp add: bit_value_def d_def)
  then have "(d + 1) mod 2 = 1"
    by presburger
  then show ?thesis
    unfolding bit_value_def e .
qed

lemma bit_value_sub:
  assumes "bit_value i q \<noteq> 0"
  shows "2 ^ q \<le> i" and "bit_value (i - 2 ^ q) q = 0"
proof -
  define d where "d = i div 2 ^ q"
  from assms have d: "d mod 2 = 1"
    unfolding bit_value_def d_def by presburger
  then have "d \<noteq> 0" by auto
  then show le: "2 ^ q \<le> i"
    by (simp add: d_def div_eq_0_iff not_less)
  have "i div 2 ^ q = ((i - 2 ^ q) + 2 ^ q) div 2 ^ q"
    using le by simp
  also have "\<dots> = (i - 2 ^ q) div 2 ^ q + 1"
    by (simp del: le_add_diff_inverse2 add_diff_cancel_right')
  finally have "d = (i - 2 ^ q) div 2 ^ q + 1"
    by (simp add: d_def)
  moreover define e where "e = (i - 2 ^ q) div 2 ^ q"
  ultimately have "d = e + 1" by simp
  with d have "e mod 2 = 0" by presburger
  then show "bit_value (i - 2 ^ q) q = 0"
    unfolding bit_value_def e_def .
qed

lemma bit_value_add_less:
  assumes i: "i < 2 ^ n" and q: "q < n" and b: "bit_value i q = 0"
  shows "i + 2 ^ q < (2::nat) ^ n"
proof -
  define d where "d = i div 2 ^ q"
  define r where "r = i mod 2 ^ q"
  define m where "m = n - q - 1"
  have n: "n = q + Suc m" using q by (simp add: m_def)
  have pw: "(2::nat) ^ n = 2 ^ q * (2 * 2 ^ m)"
    by (simp add: n power_add)
  have "d < 2 * 2 ^ m"
    using i unfolding d_def pw by (simp add: less_mult_imp_div_less mult.commute)
  moreover have "d mod 2 = 0" using b by (simp add: d_def bit_value_def)
  ultimately have "d + 2 \<le> 2 * 2 ^ m"
    by presburger
  then have "(d + 2) * 2 ^ q \<le> 2 * 2 ^ m * 2 ^ q"
    by (rule mult_le_mono1)
  then have up: "(d + 2) * 2 ^ q \<le> 2 ^ n"
    by (simp add: pw mult.commute)
  have ieq: "i = d * 2 ^ q + r"
    unfolding d_def r_def by (rule div_mult_mod_eq [symmetric])
  have rl: "r < 2 ^ q"
    by (simp add: r_def)
  have "i + 2 ^ q < (d + 2) * 2 ^ q"
    using rl by (simp add: ieq algebra_simps)
  with up show ?thesis by simp
qed


lemma length_apply_matrix [simp]: "length (apply_matrix m q v) = length v"
  by (cases m) (simp add: apply_matrix_def)

lemma length_run_instr [simp]: "length (run_instr v i) = length v"
  by (cases i) (simp_all add: apply_cx_def)

lemma length_foldl_run_instr [simp]: "length (foldl run_instr v circ) = length v"
  by (induction circ arbitrary: v) simp_all

lemma apply_X_nth:
  "i < length v \<Longrightarrow>
   apply_matrix (gate_matrix X) q v ! i =
     (if bit_value i q = 0 then v ! (i + 2 ^ q) else v ! (i - 2 ^ q))"
  by (simp add: apply_matrix_def gate_matrix_def)

lemma apply_X_twice:
  assumes len: "length v = 2 ^ n" and q: "q < n"
  shows "apply_matrix (gate_matrix X) q (apply_matrix (gate_matrix X) q v) = v"
proof (rule nth_equalityI)
  show "length (apply_matrix (gate_matrix X) q (apply_matrix (gate_matrix X) q v)) = length v"
    by simp
next
  fix i
  assume "i < length (apply_matrix (gate_matrix X) q (apply_matrix (gate_matrix X) q v))"
  then have i: "i < length v" by simp
  let ?w = "apply_matrix (gate_matrix X) q v"
  show "apply_matrix (gate_matrix X) q ?w ! i = v ! i"
  proof (cases "bit_value i q = 0")
    case True
    from i len have "i < 2 ^ n" by simp
    from bit_value_add_less [OF this q True] len have up: "i + 2 ^ q < length v"
      by simp
    have "apply_matrix (gate_matrix X) q ?w ! i = ?w ! (i + 2 ^ q)"
      using i True by (simp add: apply_X_nth)
    also have "\<dots> = v ! (i + 2 ^ q - 2 ^ q)"
      using up bit_value_add [OF True] by (simp add: apply_X_nth del: add_diff_cancel_right')
    finally show ?thesis by simp
  next
    case False
    from bit_value_sub [OF False] have le: "2 ^ q \<le> i" and b: "bit_value (i - 2 ^ q) q = 0"
      by simp_all
    from i have dn: "i - 2 ^ q < length v" by simp
    have "apply_matrix (gate_matrix X) q ?w ! i = ?w ! (i - 2 ^ q)"
      using i False by (simp add: apply_X_nth)
    also have "\<dots> = v ! (i - 2 ^ q + 2 ^ q)"
      using dn b by (simp add: apply_X_nth del: le_add_diff_inverse2)
    finally show ?thesis using le by simp
  qed
qed

lemma simulator_run_X_twice:
  assumes "q < n"
  shows "simulator_run n (circ @ [Gate1 X q, Gate1 X q]) = simulator_run n circ"
proof -
  have "length (foldl run_instr (1 # replicate (2 ^ n - 1) 0) circ) = 2 ^ n"
    by simp
  from apply_X_twice [OF this assms] show ?thesis
    by (simp add: simulator_run_def)
qed

lemma get_probabilities_cong:
  assumes "num_bullets s' = num_bullets s" "measured s' = measured s"
    "measurement_results s' = measurement_results s"
    "collapsed_states s' = collapsed_states s"
    "simulator_run (num_bullets s) (circuit s') = simulator_run (num_bullets s) (circuit s)"
  shows "get_probabilities s' = get_probabilities s"
proof -
  have "fixed_probability s' = fixed_probability s"
    by (rule ext) (simp add: fixed_probability_def assms)
  then show ?thesis
    unfolding get_probabilities_def by (simp only: assms)
qed

text \<open>
  C8. For an in-range unmeasured position \<open>p\<close>, two calls of \<^verbatim>\<open>apply_gate\<close> with the
  X gate on \<open>p\<close> both succeed, and \<^verbatim>\<open>get_probabilities\<close> returns the list it returned
  before them.
\<close>

theorem pauli_x_twice:
  assumes "0 \<le> p" and "p < int (num_bullets s)" and "\<not> measured s ! nat p"
  shows "fst (apply_gate s X p t2) \<and>
         fst (apply_gate (snd (apply_gate s X p t2)) X p t2') \<and>
         get_probabilities (snd (apply_gate (snd (apply_gate s X p t2)) X p t2')) =
           get_probabilities s"
proof -
  define s1 where "s1 = s\<lparr>circuit := circuit s @ [Gate1 X (nat p)]\<rparr>"
  define s2 where "s2 = s\<lparr>circuit := circuit s @ [Gate1 X (nat p), Gate1 X (nat p)]\<rparr>"
  have a1: "apply_gate s X p t2 = (True, s1)"
    using assms by (simp add: apply_gate_def is_two_qubit_def s1_def)
  have a2: "apply_gate s1 X p t2' = (True, s2)"
    using assms by (simp add: apply_gate_def is_two_qubit_def s1_def s2_def)
  have q: "nat p < num_bullets s" using assms by simp
  have "get_probabilities s2 = get_probabilities s"
    by (rule get_probabilities_cong) (simp_all add: s2_def simulator_run_X_twice [OF q])
  with a1 a2 show ?thesis by simp
qed


lemma pair_start_probabilities:
  "get_probabilities pair_start = [(0, 1), (1, 0), (1, 0)]"
  by (simp add: pair_start_def initialize_bullets_def new_system_def get_probabilities_def
      simulator_run_def fixed_probability_def marginal_def apply_matrix_def gate_matrix_def
      bit_value_def upt_conv_Cons)

theorem pauli_x_twice_witness:
  "(0::int) \<le> 1 \<and> 1 < int (num_bullets pair_start) \<and> \<not> measured pair_start ! nat 1 \<and>
   fst (apply_gate pair_start X 1 (- 1)) \<and>
   get_probabilities (snd (apply_gate (snd (apply_gate pair_start X 1 (- 1))) X 1 (- 1))) =
     [(0, 1), (1, 0), (1, 0)]"
proof -
  have h: "(0::int) \<le> 1" "1 < int (num_bullets pair_start)" "\<not> measured pair_start ! nat 1"
    by (simp_all add: pair_start_def initialize_bullets_def new_system_def)
  show ?thesis
    using h pauli_x_twice [OF h, of "- 1" "- 1"]
    by (simp add: pair_start_probabilities)
qed


end
